theory Spec2Isabelle
  imports Complex_Main
begin

section \<open>JavaScript values\<close>

text \<open>
  The library is TypeScript running on JavaScript numbers. The model keeps the three
  non-finite numbers and takes the finite ones to be real numbers: rounding, overflow and
  the sign of zero are abstracted away, so that sums are exact (as they are in the
  BigNumber variant of the source, \<^verbatim>\<open>src/unnamed/part_000\<close>).
\<close>

datatype jsnum = NaN | NInf | Fin real | PInf

text \<open>
  A value read from a record is absent (\<^verbatim>\<open>undefined\<close>), a number or a string. Nested
  objects, arrays, \<^verbatim>\<open>null\<close> and booleans are outside the model.
\<close>

datatype jsval = Undefined | Num jsnum | Str string

datatype error = ConfigError | TypeError

text \<open>
  \<^verbatim>\<open>ConfigError\<close> is the \<^verbatim>\<open>Error\<close> thrown for a weighted average without a weight
  field; \<^verbatim>\<open>TypeError\<close> is what the runtime throws when a property of \<^verbatim>\<open>undefined\<close> is
  read or deleted, or when a value that is not a function is called.
\<close>

subsection \<open>Arithmetic on numbers\<close>

fun jsPlus :: "jsnum \<Rightarrow> jsnum \<Rightarrow> jsnum" where
  "jsPlus NaN _ = NaN"
| "jsPlus _ NaN = NaN"
| "jsPlus (Fin a) (Fin b) = Fin (a + b)"
| "jsPlus PInf NInf = NaN"
| "jsPlus NInf PInf = NaN"
| "jsPlus PInf _ = PInf"
| "jsPlus _ PInf = PInf"
| "jsPlus NInf _ = NInf"
| "jsPlus _ NInf = NInf"

fun jsNeg :: "jsnum \<Rightarrow> jsnum" where
  "jsNeg NaN = NaN"
| "jsNeg NInf = PInf"
| "jsNeg PInf = NInf"
| "jsNeg (Fin a) = Fin (- a)"

definition jsMinus :: "jsnum \<Rightarrow> jsnum \<Rightarrow> jsnum" where
  "jsMinus a b = jsPlus a (jsNeg b)"

text \<open>The sign of a number: \<open>Some True\<close> for positive, \<open>Some False\<close> for negative.\<close>

fun jsSign :: "jsnum \<Rightarrow> bool option" where
  "jsSign NaN = None"
| "jsSign NInf = Some False"
| "jsSign PInf = Some True"
| "jsSign (Fin a) = (if a = 0 then None else Some (0 < a))"

fun jsTimes :: "jsnum \<Rightarrow> jsnum \<Rightarrow> jsnum" where
  "jsTimes NaN _ = NaN"
| "jsTimes _ NaN = NaN"
| "jsTimes (Fin a) (Fin b) = Fin (a * b)"
| "jsTimes a b =
     (case (jsSign a, jsSign b) of
        (Some s, Some t) \<Rightarrow> if s = t then PInf else NInf
      | _ \<Rightarrow> NaN)"

fun jsDivide :: "jsnum \<Rightarrow> jsnum \<Rightarrow> jsnum" where
  "jsDivide NaN _ = NaN"
| "jsDivide _ NaN = NaN"
| "jsDivide (Fin a) (Fin b) =
     (if b = 0 then (if a = 0 then NaN else if 0 < a then PInf else NInf) else Fin (a / b))"
| "jsDivide (Fin a) _ = Fin 0"
| "jsDivide PInf (Fin b) = (if 0 \<le> b then PInf else NInf)"
| "jsDivide NInf (Fin b) = (if 0 \<le> b then NInf else PInf)"
| "jsDivide _ _ = NaN"

fun jsSqrt :: "jsnum \<Rightarrow> jsnum" where
  "jsSqrt NaN = NaN"
| "jsSqrt NInf = NaN"
| "jsSqrt PInf = PInf"
| "jsSqrt (Fin a) = (if a < 0 then NaN else Fin (sqrt a))"

text \<open>
  The square root of a real number is not computed when a term is evaluated: it stays
  as it is written.
\<close>

declare sqrt_def [code del]

text \<open>The comparison \<^verbatim>\<open>a < b\<close> of two numbers: false as soon as one of them is NaN.\<close>

fun jsLess :: "jsnum \<Rightarrow> jsnum \<Rightarrow> bool" where
  "jsLess NaN _ = False"
| "jsLess _ NaN = False"
| "jsLess (Fin a) (Fin b) = (a < b)"
| "jsLess NInf NInf = False"
| "jsLess NInf _ = True"
| "jsLess _ NInf = False"
| "jsLess PInf _ = False"
| "jsLess _ PInf = True"

definition jsLessEq :: "jsnum \<Rightarrow> jsnum \<Rightarrow> bool" where
  "jsLessEq a b = (jsLess a b \<or> (a = b \<and> a \<noteq> NaN))"

subsection \<open>Numbers and strings\<close>

text \<open>
  Two conversions of the runtime cannot be written down for real numbers: the digits
  printed for a number that is not an integer, and the number read from a string that is
  not an integer literal. They are parameters of the model; every conversion of an
  integer is computed by the definitions below, and no theorem depends on what the
  parameters return.
\<close>

record jsruntime =
  fmtNumber :: "real \<Rightarrow> string"
  parseOther :: "string \<Rightarrow> jsnum"

definition digitChar :: "nat \<Rightarrow> char" where
  "digitChar d = ''0123456789'' ! d"

fun natToString :: "nat \<Rightarrow> string" where
  "natToString n =
     (if n < 10 then [digitChar n] else natToString (n div 10) @ [digitChar (n mod 10)])"

declare natToString.simps [simp del]

definition intToString :: "int \<Rightarrow> string" where
  "intToString i = (if i < 0 then CHR ''-'' # natToString (nat (- i)) else natToString (nat i))"

text \<open>
  \<^verbatim>\<open>String(n)\<close>, as a template literal and \<^verbatim>\<open>Array.prototype.join\<close> apply it to a
  number: an integer below \<open>10\<^sup>2\<^sup>1\<close> in absolute value prints as its decimal digits.
\<close>

definition numberToString :: "jsruntime \<Rightarrow> jsnum \<Rightarrow> string" where
  "numberToString rt n =
     (case n of
        NaN \<Rightarrow> ''NaN''
      | PInf \<Rightarrow> ''Infinity''
      | NInf \<Rightarrow> ''-Infinity''
      | Fin x \<Rightarrow>
          if x = of_int \<lfloor>x\<rfloor> \<and> \<bar>x\<bar> < 10 ^ 21 then intToString \<lfloor>x\<rfloor> else fmtNumber rt x)"

definition isDigit :: "char \<Rightarrow> bool" where
  "isDigit c = (c \<in> set ''0123456789'')"

definition digitVal :: "char \<Rightarrow> nat" where
  "digitVal c = length (takeWhile (\<lambda>d. d \<noteq> c) ''0123456789'')"

definition isDigits :: "string \<Rightarrow> bool" where
  "isDigits s = (s \<noteq> [] \<and> list_all isDigit s)"

definition parseNat :: "string \<Rightarrow> nat" where
  "parseNat s = foldl (\<lambda>a c. 10 * a + digitVal c) 0 s"

text \<open>
  \<^verbatim>\<open>Number(s)\<close>: the empty string is 0, a run of digits with an optional sign is that
  integer, anything else is left to the runtime (for most strings, NaN).
\<close>

definition stringToNumber :: "jsruntime \<Rightarrow> string \<Rightarrow> jsnum" where
  "stringToNumber rt s =
     (if s = [] then Fin 0
      else if isDigits s then Fin (real (parseNat s))
      else if hd s = CHR ''-'' \<and> isDigits (tl s) then Fin (- real (parseNat (tl s)))
      else if hd s = CHR ''+'' \<and> isDigits (tl s) then Fin (real (parseNat (tl s)))
      else parseOther rt s)"

text \<open>The runtime used at concrete inputs, all of which are integers.\<close>

definition plainRuntime :: jsruntime where
  "plainRuntime = \<lparr>fmtNumber = (\<lambda>x. ''?''), parseOther = (\<lambda>s. NaN)\<rparr>"

text \<open>\<^verbatim>\<open>ToNumber\<close> of a value, as the arithmetic operators and comparisons apply it.\<close>

definition toNumber :: "jsruntime \<Rightarrow> jsval \<Rightarrow> jsnum" where
  "toNumber rt v = (case v of Undefined \<Rightarrow> NaN | Num n \<Rightarrow> n | Str s \<Rightarrow> stringToNumber rt s)"

text \<open>Strings compare by code unit, a proper prefix before its extensions.\<close>

fun stringLess :: "string \<Rightarrow> string \<Rightarrow> bool" where
  "stringLess [] [] = False"
| "stringLess [] (y # ys) = True"
| "stringLess (x # xs) [] = False"
| "stringLess (x # xs) (y # ys) =
     (if (of_char x :: nat) < of_char y then True
      else if (of_char y :: nat) < of_char x then False
      else stringLess xs ys)"

text \<open>
  The relational operator \<^verbatim>\<open>a < b\<close> on values: two strings compare as strings, anything
  else as numbers.
\<close>

definition valLess :: "jsruntime \<Rightarrow> jsval \<Rightarrow> jsval \<Rightarrow> bool" where
  "valLess rt a b =
     (case (a, b) of
        (Str s, Str t) \<Rightarrow> stringLess s t
      | _ \<Rightarrow> jsLess (toNumber rt a) (toNumber rt b))"

definition valLessEq :: "jsruntime \<Rightarrow> jsval \<Rightarrow> jsval \<Rightarrow> bool" where
  "valLessEq rt a b =
     (case (a, b) of
        (Str s, Str t) \<Rightarrow> \<not> stringLess t s
      | _ \<Rightarrow> jsLessEq (toNumber rt a) (toNumber rt b))"

text \<open>
  An element of an array under \<^verbatim>\<open>join\<close>: \<^verbatim>\<open>undefined\<close> contributes the empty string.
\<close>

definition joinString :: "jsruntime \<Rightarrow> jsval \<Rightarrow> string" where
  "joinString rt v = (case v of Undefined \<Rightarrow> [] | Num n \<Rightarrow> numberToString rt n | Str s \<Rightarrow> s)"


section \<open>Data model\<close>

text \<open>
  An object is the list of its own properties in the order the runtime enumerates them.
  Paths given to lodash's \<^verbatim>\<open>_.get\<close> and \<^verbatim>\<open>_.set\<close> are single property names in the
  model (no dots, no brackets), so that a path is a key. Properties a fresh object inherits
  from \<^verbatim>\<open>Object.prototype\<close> are not modelled: no key is \<^verbatim>\<open>constructor\<close>,
  \<^verbatim>\<open>__proto__\<close> and the like.
\<close>

type_synonym 'v jsobject = "(string \<times> 'v) list"

fun setProp :: "string \<Rightarrow> 'v \<Rightarrow> 'v jsobject \<Rightarrow> 'v jsobject" where
  "setProp k v [] = [(k, v)]"
| "setProp k v ((k', v') # ps) =
     (if k = k' then (k, v) # ps else (k', v') # setProp k v ps)"

datatype AggregationTypes =
  AggMin | AggMax | AggCount | AggSum | AggAverage | AggStandardDeviation | AggWeightedAverage

text \<open>
  The state kept for one key of \<^verbatim>\<open>sources\<close>: every field is optional in the interface
  \<^verbatim>\<open>IAggregationData\<close>, and a missing one reads as \<^verbatim>\<open>undefined\<close>.
\<close>

record sourceState =
  m_sum :: "jsnum option"
  m_sumOfSquares :: "jsnum option"
  m_min :: "jsnum option"
  m_max :: "jsnum option"
  m_weightedSum :: "jsnum option"
  m_totalWeight :: "jsnum option"

record IAggregationData =
  m_matchKeys :: "string list"
  m_count :: jsnum
  m_sources :: "sourceState jsobject"

text \<open>
  A record: its properties, and the aggregation metadata kept under the reserved key
  \<^verbatim>\<open>_aggregationMetadata\<close>, typed as the interface declares it. Keeping the metadata
  in a field of its own assumes what the specification requires of callers: no field
  path names the reserved key.
\<close>

record jsrecord =
  props :: "jsval jsobject"
  metadata :: "IAggregationData option"

text \<open>One output field of the request; \<open>aggMethod\<close> is its \<^verbatim>\<open>method\<close>.\<close>

record IAggregationField =
  aggMethod :: AggregationTypes
  sourceField :: "string option"
  weightField :: "string option"

type_synonym BucketEndpoints = "jsnum list"

text \<open>
  The options of \<^verbatim>\<open>aggregate\<close>. The option \<^verbatim>\<open>fields\<close> is the field \<open>aggFields\<close>
  here, listed in the order \<^verbatim>\<open>Object.keys\<close> enumerates it.
\<close>

record IAggregationParams =
  records :: "jsrecord list"
  matchKeys :: "string list"
  buckets :: "BucketEndpoints jsobject option"
  aggFields :: "IAggregationField jsobject"
  noAggregateMetadata :: bool
  sortBy :: "string list option"

text \<open>\<^verbatim>\<open>_.get(record, path)\<close> and the plain read \<^verbatim>\<open>record[key]\<close>.\<close>

definition getProp :: "jsrecord \<Rightarrow> string \<Rightarrow> jsval" where
  "getProp r k = (case map_of (props r) k of None \<Rightarrow> Undefined | Some v \<Rightarrow> v)"

text \<open>
  An optional string used as a property name or inside a template literal:
  \<^verbatim>\<open>undefined\<close> becomes the string \<^verbatim>\<open>"undefined"\<close>.
\<close>

definition propKey :: "string option \<Rightarrow> string" where
  "propKey k = (case k of None \<Rightarrow> ''undefined'' | Some s \<Rightarrow> s)"

definition optNum :: "jsnum option \<Rightarrow> jsnum" where
  "optNum x = (case x of None \<Rightarrow> NaN | Some n \<Rightarrow> n)"

definition optVal :: "jsnum option \<Rightarrow> jsval" where
  "optVal x = (case x of None \<Rightarrow> Undefined | Some n \<Rightarrow> Num n)"

text \<open>
  A value stored into a field typed \<^verbatim>\<open>number\<close>. A string there is read as the number
  it spells, which is what the BigNumber variant and every arithmetic operator but
  \<^verbatim>\<open>+\<close> do; \<^verbatim>\<open>aggregate.ts\<close> would concatenate under \<^verbatim>\<open>+=\<close>. Source and weight
  fields are meant to hold numbers.
\<close>

definition toNumberOpt :: "jsruntime \<Rightarrow> jsval \<Rightarrow> jsnum option" where
  "toNumberOpt rt v = (case v of Undefined \<Rightarrow> None | _ \<Rightarrow> Some (toNumber rt v))"

subsection \<open>Errors and loops that may throw\<close>

fun foldE :: "('s \<Rightarrow> 'a \<Rightarrow> error + 's) \<Rightarrow> 'a list \<Rightarrow> 's \<Rightarrow> error + 's" where
  "foldE f [] s = Inr s"
| "foldE f (x # xs) s = (case f s x of Inl e \<Rightarrow> Inl e | Inr s' \<Rightarrow> foldE f xs s')"

fun mapE :: "('a \<Rightarrow> error + 'b) \<Rightarrow> 'a list \<Rightarrow> error + 'b list" where
  "mapE f [] = Inr []"
| "mapE f (x # xs) =
     (case f x of
        Inl e \<Rightarrow> Inl e
      | Inr y \<Rightarrow> (case mapE f xs of Inl e \<Rightarrow> Inl e | Inr ys \<Rightarrow> Inr (y # ys)))"

section \<open>Helpers of \<^verbatim>\<open>aggregate.ts\<close>\<close>

definition getWeightedAverageMetadataKey :: "string option \<Rightarrow> string option \<Rightarrow> string" where
  "getWeightedAverageMetadataKey sourceF weightF =
     ''weightedAverage'' @ '','' @ propKey sourceF @ '','' @ propKey weightF"

definition lessOpt :: "jsnum option \<Rightarrow> jsnum option \<Rightarrow> bool" where
  "lessOpt a b = (case (a, b) of (Some x, Some y) \<Rightarrow> jsLess x y | _ \<Rightarrow> False)"

definition getMin :: "jsnum option \<Rightarrow> jsnum option \<Rightarrow> jsnum option" where
  "getMin value1 value2 = (if lessOpt value2 value1 then value2 else value1)"

definition getMax :: "jsnum option \<Rightarrow> jsnum option \<Rightarrow> jsnum option" where
  "getMax value1 value2 = (if lessOpt value1 value2 then value2 else value1)"

text \<open>\<^verbatim>\<open>_.difference(subset, superset).length === 0\<close>\<close>

definition isSubset :: "string list \<Rightarrow> string list \<Rightarrow> bool" where
  "isSubset sub super = list_all (\<lambda>k. k \<in> set super) sub"

definition exists :: "'a option \<Rightarrow> bool" where
  "exists input = (input \<noteq> None)"

text \<open>\<^verbatim>\<open>_.uniqBy\<close> keeps the first element of each key, in order.\<close>

definition uniqBy :: "('a \<Rightarrow> 'k) \<Rightarrow> 'a list \<Rightarrow> 'a list" where
  "uniqBy f xs = foldl (\<lambda>acc x. if f x \<in> f ` set acc then acc else acc @ [x]) [] xs"

subsection \<open>Bucket labels\<close>

text \<open>
  \<^verbatim>\<open>bucketEndpoints.sort()\<close> is called without a comparison function: the runtime then
  orders the elements by their string conversions, stably.
\<close>

fun sortInsert :: "jsruntime \<Rightarrow> jsnum \<Rightarrow> jsnum list \<Rightarrow> jsnum list" where
  "sortInsert rt x [] = [x]"
| "sortInsert rt x (y # ys) =
     (if stringLess (numberToString rt y) (numberToString rt x)
      then y # sortInsert rt x ys else x # y # ys)"

definition defaultSort :: "jsruntime \<Rightarrow> jsnum list \<Rightarrow> jsnum list" where
  "defaultSort rt xs = foldr (sortInsert rt) xs []"

text \<open>
  The loop of \<^verbatim>\<open>getFieldHashKey\<close> over the sorted endpoints, \<open>previousEndpoint\<close> being
  \<open>None\<close> until the first endpoint has been passed.
\<close>

fun bucketLoop :: "jsruntime \<Rightarrow> jsval \<Rightarrow> jsnum option \<Rightarrow> jsnum list \<Rightarrow> string" where
  "bucketLoop rt v previousEndpoint [] =
     (case previousEndpoint of None \<Rightarrow> ''undefined'' | Some p \<Rightarrow> numberToString rt p) @ ''+''"
| "bucketLoop rt v previousEndpoint (endpoint # rest) =
     (if valLess rt v (Num endpoint) then
        (case previousEndpoint of
           None \<Rightarrow> ''<'' @ numberToString rt endpoint
         | Some p \<Rightarrow> numberToString rt p @ ''-'' @ numberToString rt endpoint)
      else bucketLoop rt v (Some endpoint) rest)"

definition getFieldHashKey ::
  "jsruntime \<Rightarrow> jsrecord \<Rightarrow> string \<Rightarrow> BucketEndpoints option \<Rightarrow> jsval" where
  "getFieldHashKey rt record matchKey bucketEndpoints =
     (let v = getProp record matchKey in
      case bucketEndpoints of
        None \<Rightarrow> v
      | Some eps \<Rightarrow> Str (bucketLoop rt v None (defaultSort rt eps)))"

definition startsWith :: "string \<Rightarrow> string \<Rightarrow> bool" where
  "startsWith s p = (take (length p) s = p)"

definition endsWith :: "string \<Rightarrow> string \<Rightarrow> bool" where
  "endsWith s p = (drop (length s - length p) s = p)"

text \<open>\<^verbatim>\<open>s.split(c)\<close> for a separator of one character.\<close>

fun split :: "char \<Rightarrow> string \<Rightarrow> string list" where
  "split c [] = [[]]"
| "split c (x # xs) =
     (if x = c then [] # split c xs
      else (case split c xs of [] \<Rightarrow> [[x]] | piece # pieces \<Rightarrow> (x # piece) # pieces))"

definition parseBucketString :: "jsruntime \<Rightarrow> string \<Rightarrow> jsnum list" where
  "parseBucketString rt bucketString =
     (if startsWith bucketString ''<'' then [NInf, stringToNumber rt (drop 1 bucketString)]
      else if endsWith bucketString ''+'' then [stringToNumber rt (butlast bucketString), PInf]
      else map (stringToNumber rt) (split (CHR ''-'') bucketString))"

subsection \<open>The same helpers in the BigNumber variant\<close>

text \<open>
  \<^verbatim>\<open>src/unnamed/part_000\<close> is the same module with sums kept in BigNumber; in exact
  arithmetic it differs from \<^verbatim>\<open>aggregate.ts\<close> in the two bucket helpers only: the
  comparison is \<^verbatim>\<open>value <= endpoint\<close> and the label of the first bucket starts with
  \<^verbatim>\<open><=\<close>.
\<close>

fun bucketLoopB :: "jsruntime \<Rightarrow> jsval \<Rightarrow> jsnum option \<Rightarrow> jsnum list \<Rightarrow> string" where
  "bucketLoopB rt v previousEndpoint [] =
     (case previousEndpoint of None \<Rightarrow> ''undefined'' | Some p \<Rightarrow> numberToString rt p) @ ''+''"
| "bucketLoopB rt v previousEndpoint (endpoint # rest) =
     (if valLessEq rt v (Num endpoint) then
        (case previousEndpoint of
           None \<Rightarrow> ''<='' @ numberToString rt endpoint
         | Some p \<Rightarrow> numberToString rt p @ ''-'' @ numberToString rt endpoint)
      else bucketLoopB rt v (Some endpoint) rest)"

definition getFieldHashKeyB ::
  "jsruntime \<Rightarrow> jsrecord \<Rightarrow> string \<Rightarrow> BucketEndpoints option \<Rightarrow> jsval" where
  "getFieldHashKeyB rt record matchKey bucketEndpoints =
     (let v = getProp record matchKey in
      case bucketEndpoints of
        None \<Rightarrow> v
      | Some eps \<Rightarrow> Str (bucketLoopB rt v None (defaultSort rt eps)))"

definition parseBucketStringB :: "jsruntime \<Rightarrow> string \<Rightarrow> jsnum list" where
  "parseBucketStringB rt bucketString =
     (if startsWith bucketString ''<='' then [NInf, stringToNumber rt (drop 1 bucketString)]
      else if endsWith bucketString ''+'' then [stringToNumber rt (butlast bucketString), PInf]
      else map (stringToNumber rt) (split (CHR ''-'') bucketString))"


section \<open>The accumulator\<close>

text \<open>
  \<^verbatim>\<open>recordsHash\<close> is a plain object keyed by the group's hash key. The runtime
  enumerates the keys of an object with the array indices first, in ascending order (a key
  is an array index when it is the decimal form of an integer below \<open>2\<^sup>3\<^sup>2 - 1\<close>), and
  the other keys after them in the order of their creation. The two parts are kept apart.
\<close>

definition arrayIndex :: "string \<Rightarrow> nat option" where
  "arrayIndex k =
     (if isDigits k \<and> natToString (parseNat k) = k \<and> parseNat k < 4294967295
      then Some (parseNat k) else None)"

fun indexedPut :: "nat \<Rightarrow> 'v \<Rightarrow> (nat \<times> 'v) list \<Rightarrow> (nat \<times> 'v) list" where
  "indexedPut i v [] = [(i, v)]"
| "indexedPut i v ((j, w) # rest) =
     (if i = j then (i, v) # rest
      else if i < j then (i, v) # (j, w) # rest
      else (j, w) # indexedPut i v rest)"

type_synonym 'v jshash = "(nat \<times> 'v) list \<times> (string \<times> 'v) list"

definition hashLookup :: "'v jshash \<Rightarrow> string \<Rightarrow> 'v option" where
  "hashLookup h k =
     (case arrayIndex k of Some i \<Rightarrow> map_of (fst h) i | None \<Rightarrow> map_of (snd h) k)"

definition hashPut :: "string \<Rightarrow> 'v \<Rightarrow> 'v jshash \<Rightarrow> 'v jshash" where
  "hashPut k v h =
     (case arrayIndex k of
        Some i \<Rightarrow> (indexedPut i v (fst h), snd h)
      | None \<Rightarrow> (fst h, setProp k v (snd h)))"

text \<open>\<^verbatim>\<open>Object.values\<close>\<close>

definition hashValues :: "'v jshash \<Rightarrow> 'v list" where
  "hashValues h = map snd (fst h) @ map snd (snd h)"

text \<open>
  A group while it accumulates: the properties written so far and the metadata, which is
  present until the end of \<^verbatim>\<open>aggregateInternal\<close>.
\<close>

type_synonym group = "jsval jsobject \<times> IAggregationData"

definition standardSourceFields :: "IAggregationField jsobject \<Rightarrow> string list" where
  "standardSourceFields fs =
     uniqBy id
       (List.map_filter sourceField
         (filter (\<lambda>f. aggMethod f \<noteq> AggWeightedAverage) (map snd fs)))"

definition weightedAvgFields :: "IAggregationField jsobject \<Rightarrow> IAggregationField list" where
  "weightedAvgFields fs =
     uniqBy (\<lambda>f. getWeightedAverageMetadataKey (sourceField f) (weightField f))
       (filter (\<lambda>f. aggMethod f = AggWeightedAverage) (map snd fs))"

definition bucketEndpointsFor :: "BucketEndpoints jsobject option \<Rightarrow> string \<Rightarrow> BucketEndpoints option" where
  "bucketEndpointsFor bs k = (case bs of None \<Rightarrow> None | Some b \<Rightarrow> map_of b k)"

text \<open>
  The flag \<^verbatim>\<open>isAggregatedRecord\<close> once the three checks at the head of the loop body
  have run. It is left \<^verbatim>\<open>undefined\<close>, which counts as false, for a record without
  metadata. The check of a weighted field reads \<^verbatim>\<open>sources[sourceField]\<close>.
\<close>

definition isAggregatedRecord :: "IAggregationParams \<Rightarrow> jsrecord \<Rightarrow> bool" where
  "isAggregatedRecord p r =
     (case metadata r of
        None \<Rightarrow> False
      | Some md \<Rightarrow>
          isSubset (matchKeys p) (m_matchKeys md)
          \<and> list_all (\<lambda>sf. map_of (m_sources md) sf \<noteq> None)
               (standardSourceFields (aggFields p))
          \<and> list_all (\<lambda>f. map_of (m_sources md) (propKey (sourceField f)) \<noteq> None)
               (weightedAvgFields (aggFields p)))"

definition hashKeyOf :: "jsruntime \<Rightarrow> IAggregationParams \<Rightarrow> jsrecord \<Rightarrow> string" where
  "hashKeyOf rt p r =
     concat (map (\<lambda>matchKey.
        joinString rt (getFieldHashKey rt r matchKey (bucketEndpointsFor (buckets p) matchKey)))
       (matchKeys p))"

text \<open>The object created for a hash key met for the first time.\<close>

definition newGroup :: "jsruntime \<Rightarrow> IAggregationParams \<Rightarrow> jsrecord \<Rightarrow> group" where
  "newGroup rt p r =
     (foldl (\<lambda>ps matchKey.
         setProp matchKey
           (getFieldHashKey rt r matchKey (bucketEndpointsFor (buckets p) matchKey)) ps)
        [] (matchKeys p),
      \<lparr>m_matchKeys = matchKeys p, m_count = Fin 0, m_sources = []\<rparr>)"

definition emptyStandard :: sourceState where
  "emptyStandard =
     \<lparr>m_sum = Some (Fin 0), m_sumOfSquares = Some (Fin 0), m_min = Some PInf,
      m_max = Some NInf, m_weightedSum = None, m_totalWeight = None\<rparr>"

definition emptyWeighted :: sourceState where
  "emptyWeighted =
     \<lparr>m_sum = None, m_sumOfSquares = None, m_min = None, m_max = None,
      m_weightedSum = Some (Fin 0), m_totalWeight = Some (Fin 0)\<rparr>"

text \<open>
  The state found under a key of \<^verbatim>\<open>sources\<close>, or the one created for it when there is
  none yet.
\<close>

definition stateOr :: "sourceState \<Rightarrow> sourceState jsobject \<Rightarrow> string \<Rightarrow> sourceState" where
  "stateOr created srcs k = (case map_of srcs k of None \<Rightarrow> created | Some s \<Rightarrow> s)"

text \<open>
  What a record brings to the sum, the sum of squares, the minimum and the maximum of a
  source field: the four expressions \<^verbatim>\<open>isAggregatedRecord ? metadataOnRecord[...] : ...\<close>.
  Reading a field of \<^verbatim>\<open>metadataOnRecord\<close> throws when that is \<^verbatim>\<open>undefined\<close>.
\<close>

type_synonym standardPart = "jsnum \<times> jsnum \<times> jsnum option \<times> jsnum option"

definition standardPart :: "jsruntime \<Rightarrow> bool \<Rightarrow> jsrecord \<Rightarrow> string \<Rightarrow> error + standardPart" where
  "standardPart rt isAgg r sf =
     (let newValue = getProp r sf;
          metadataOnRecord = (case metadata r of None \<Rightarrow> None | Some md \<Rightarrow> map_of (m_sources md) sf)
      in if isAgg then
           (case metadataOnRecord of
              None \<Rightarrow> Inl TypeError
            | Some onRecord \<Rightarrow>
                Inr (optNum (m_sum onRecord), optNum (m_sumOfSquares onRecord),
                     m_min onRecord, m_max onRecord))
         else
           Inr (toNumber rt newValue, jsTimes (toNumber rt newValue) (toNumber rt newValue),
                toNumberOpt rt newValue, toNumberOpt rt newValue))"

definition addStandard :: "sourceState \<Rightarrow> standardPart \<Rightarrow> sourceState" where
  "addStandard metadataInHash c =
     (case c of (s, q, lo, hi) \<Rightarrow>
        metadataInHash
          \<lparr>m_sum := Some (jsPlus (optNum (m_sum metadataInHash)) s),
           m_sumOfSquares := Some (jsPlus (optNum (m_sumOfSquares metadataInHash)) q),
           m_min := getMin (m_min metadataInHash) lo,
           m_max := getMax (m_max metadataInHash) hi\<rparr>)"

text \<open>
  The body of \<^verbatim>\<open>standardSourceFields.forEach\<close>: \<open>srcs\<close> is the \<^verbatim>\<open>sources\<close> object of
  the group, and the updated state is written back under its key.
\<close>

definition accumulateStandard ::
  "jsruntime \<Rightarrow> bool \<Rightarrow> jsrecord \<Rightarrow> sourceState jsobject \<Rightarrow> string \<Rightarrow> error + sourceState jsobject" where
  "accumulateStandard rt isAgg r srcs sf =
     (case standardPart rt isAgg r sf of
        Inl e \<Rightarrow> Inl e
      | Inr c \<Rightarrow> Inr (setProp sf (addStandard (stateOr emptyStandard srcs sf) c) srcs))"

text \<open>
  The same for a weighted field: what the record brings to the total weight and to the
  weighted sum, under the composite key.
\<close>

type_synonym weightedPart = "jsnum \<times> jsnum"

definition weightedPart :: "jsruntime \<Rightarrow> bool \<Rightarrow> jsrecord \<Rightarrow> IAggregationField \<Rightarrow> error + weightedPart" where
  "weightedPart rt isAgg r f =
     (let sourceValue = getProp r (propKey (sourceField f));
          weightValue = getProp r (propKey (weightField f));
          metadataKey = getWeightedAverageMetadataKey (sourceField f) (weightField f);
          metadataOnRecord =
            (case metadata r of None \<Rightarrow> None | Some md \<Rightarrow> map_of (m_sources md) metadataKey)
      in if isAgg then
           (case metadataOnRecord of
              None \<Rightarrow> Inl TypeError
            | Some onRecord \<Rightarrow>
                Inr (optNum (m_totalWeight onRecord), optNum (m_weightedSum onRecord)))
         else
           Inr (toNumber rt weightValue,
                jsTimes (toNumber rt sourceValue) (toNumber rt weightValue)))"

definition addWeighted :: "sourceState \<Rightarrow> weightedPart \<Rightarrow> sourceState" where
  "addWeighted metadataInHash c =
     (case c of (w, ws) \<Rightarrow>
        metadataInHash
          \<lparr>m_weightedSum := Some (jsPlus (optNum (m_weightedSum metadataInHash)) ws),
           m_totalWeight := Some (jsPlus (optNum (m_totalWeight metadataInHash)) w)\<rparr>)"

text \<open>The body of \<^verbatim>\<open>weightedAvgFields.forEach\<close>, which starts with the check of the weight field.\<close>

definition accumulateWeighted ::
  "jsruntime \<Rightarrow> bool \<Rightarrow> jsrecord \<Rightarrow> sourceState jsobject \<Rightarrow> IAggregationField
     \<Rightarrow> error + sourceState jsobject" where
  "accumulateWeighted rt isAgg r srcs f =
     (if \<not> exists (weightField f) then Inl ConfigError
      else
        let metadataKey = getWeightedAverageMetadataKey (sourceField f) (weightField f) in
        case weightedPart rt isAgg r f of
          Inl e \<Rightarrow> Inl e
        | Inr c \<Rightarrow>
            Inr (setProp metadataKey (addWeighted (stateOr emptyWeighted srcs metadataKey) c) srcs))"

text \<open>
  What one record adds to its group: the count, then the standard source fields, then the
  weighted ones.
\<close>

definition accumulate ::
  "jsruntime \<Rightarrow> IAggregationParams \<Rightarrow> group \<Rightarrow> jsrecord \<Rightarrow> error + group" where
  "accumulate rt p g r =
     (let isAgg = isAggregatedRecord p r;
          md = snd g;
          count' = jsPlus (m_count md)
                     (if isAgg then (case metadata r of None \<Rightarrow> NaN | Some rmd \<Rightarrow> m_count rmd)
                      else Fin 1)
      in case foldE (accumulateStandard rt isAgg r) (standardSourceFields (aggFields p)) (m_sources md) of
           Inl e \<Rightarrow> Inl e
         | Inr srcs1 \<Rightarrow>
             (case foldE (accumulateWeighted rt isAgg r) (weightedAvgFields (aggFields p)) srcs1 of
                Inl e \<Rightarrow> Inl e
              | Inr srcs2 \<Rightarrow> Inr (fst g, md\<lparr>m_count := count', m_sources := srcs2\<rparr>)))"

text \<open>The body of the loop over the records.\<close>

definition processRecord ::
  "jsruntime \<Rightarrow> IAggregationParams \<Rightarrow> group jshash \<Rightarrow> jsrecord \<Rightarrow> error + group jshash" where
  "processRecord rt p recordsHash r =
     (let hashKey = hashKeyOf rt p r;
          g = (case hashLookup recordsHash hashKey of
                 None \<Rightarrow> newGroup rt p r
               | Some g \<Rightarrow> g)
      in case accumulate rt p g r of
           Inl e \<Rightarrow> Inl e
         | Inr g' \<Rightarrow> Inr (hashPut hashKey g' recordsHash))"


section \<open>Derived values\<close>

definition jsSquare :: "jsnum \<Rightarrow> jsnum" where
  "jsSquare a = jsTimes a a"

text \<open>
  \<^verbatim>\<open>aggregationFunctions[method]\<close>. Reading a field of a source state that is not in
  \<^verbatim>\<open>sources\<close> throws.
\<close>

definition aggregationFunctions ::
  "AggregationTypes \<Rightarrow> IAggregationData \<Rightarrow> string option \<Rightarrow> string option \<Rightarrow> error + jsval" where
  "aggregationFunctions m aggregationData sourceF weightF =
     (let withState = (\<lambda>key f.
            case map_of (m_sources aggregationData) key of
              None \<Rightarrow> Inl TypeError
            | Some s \<Rightarrow> Inr (f s));
          count = m_count aggregationData
      in case m of
           AggMin \<Rightarrow> withState (propKey sourceF) (\<lambda>s. optVal (m_min s))
         | AggMax \<Rightarrow> withState (propKey sourceF) (\<lambda>s. optVal (m_max s))
         | AggSum \<Rightarrow> withState (propKey sourceF) (\<lambda>s. optVal (m_sum s))
         | AggCount \<Rightarrow> Inr (Num count)
         | AggAverage \<Rightarrow>
             withState (propKey sourceF) (\<lambda>s. Num (jsDivide (optNum (m_sum s)) count))
         | AggStandardDeviation \<Rightarrow>
             withState (propKey sourceF) (\<lambda>s.
               let average = jsDivide (optNum (m_sum s)) count;
                   variance = jsMinus (jsDivide (optNum (m_sumOfSquares s)) count) (jsSquare average)
               in Num (jsSqrt variance))
         | AggWeightedAverage \<Rightarrow>
             withState (getWeightedAverageMetadataKey sourceF weightF) (\<lambda>s.
               Num (jsDivide (optNum (m_weightedSum s)) (optNum (m_totalWeight s)))))"

text \<open>
  The loop over the groups at the end of \<^verbatim>\<open>aggregateInternal\<close>: every output field is
  written in turn, then the metadata is dropped if asked.
\<close>

definition writeField :: "IAggregationData \<Rightarrow> jsval jsobject \<Rightarrow> string \<times> IAggregationField
     \<Rightarrow> error + jsval jsobject" where
  "writeField md ps outputField =
     (let f = snd outputField in
      case aggregationFunctions (aggMethod f) md (sourceField f) (weightField f) of
        Inl e \<Rightarrow> Inl e
      | Inr v \<Rightarrow> Inr (setProp (fst outputField) v ps))"

definition finishGroup :: "IAggregationParams \<Rightarrow> group \<Rightarrow> error + jsrecord" where
  "finishGroup p g =
     (case foldE (writeField (snd g)) (aggFields p) (fst g) of
        Inl e \<Rightarrow> Inl e
      | Inr ps \<Rightarrow>
          Inr \<lparr>props = ps, metadata = (if noAggregateMetadata p then None else Some (snd g))\<rparr>)"

section \<open>Sorting\<close>

text \<open>
  \<^verbatim>\<open>transformSortKeyForSort\<close> gives lodash either the sort key itself, which lodash
  reads with \<^verbatim>\<open>_.get\<close>, or a function that parses the bucket label found under the key
  and returns its first number. \<^verbatim>\<open>startsWith\<close> can only be called on a string.
\<close>

definition transformSortKeyForSort ::
  "jsruntime \<Rightarrow> BucketEndpoints jsobject option \<Rightarrow> string \<Rightarrow> jsrecord \<Rightarrow> error + jsval" where
  "transformSortKeyForSort rt bs sortKey r =
     (if \<not> exists (bucketEndpointsFor bs sortKey) then Inr (getProp r sortKey)
      else
        (case getProp r sortKey of
           Str bucketString \<Rightarrow>
             (case parseBucketString rt bucketString of
                [] \<Rightarrow> Inr Undefined
              | bucketStart # _ \<Rightarrow> Inr (Num bucketStart))
         | _ \<Rightarrow> Inl TypeError))"

text \<open>
  lodash's \<^verbatim>\<open>compareAscending\<close> on the values of the model: \<^verbatim>\<open>undefined\<close> and NaN
  sort after everything else.
\<close>

definition compareAscending :: "jsruntime \<Rightarrow> jsval \<Rightarrow> jsval \<Rightarrow> int" where
  "compareAscending rt v other =
     (if v = other \<and> v \<noteq> Num NaN then 0
      else if valLess rt other v \<or> (v = Undefined \<and> other \<noteq> Num NaN) \<or> v = Num NaN then 1
      else if valLess rt v other \<or> (other = Undefined \<and> v \<noteq> Num NaN) \<or> other = Num NaN then - 1
      else 0)"

fun compareMultiple :: "jsruntime \<Rightarrow> jsval list \<Rightarrow> jsval list \<Rightarrow> int" where
  "compareMultiple rt (a # as) (b # bs) =
     (let c = compareAscending rt a b in if c \<noteq> 0 then c else compareMultiple rt as bs)"
| "compareMultiple rt _ _ = 0"

text \<open>
  \<^verbatim>\<open>_.sortBy\<close> computes the criteria of every element first and then sorts; elements
  whose criteria compare equal keep their order.
\<close>

fun criteriaInsert ::
  "jsruntime \<Rightarrow> jsval list \<times> 'a \<Rightarrow> (jsval list \<times> 'a) list \<Rightarrow> (jsval list \<times> 'a) list" where
  "criteriaInsert rt x [] = [x]"
| "criteriaInsert rt x (y # ys) =
     (if compareMultiple rt (fst x) (fst y) > 0 then y # criteriaInsert rt x ys else x # y # ys)"

definition lodashSortBy ::
  "jsruntime \<Rightarrow> (jsrecord \<Rightarrow> error + jsval) list \<Rightarrow> jsrecord list \<Rightarrow> error + jsrecord list" where
  "lodashSortBy rt iteratees rs =
     (case mapE (\<lambda>r. mapE (\<lambda>it. it r) iteratees) rs of
        Inl e \<Rightarrow> Inl e
      | Inr criteria \<Rightarrow> Inr (map snd (foldr (criteriaInsert rt) (zip criteria rs) [])))"

section \<open>\<^verbatim>\<open>aggregateInternal\<close> and \<^verbatim>\<open>aggregate\<close>\<close>

definition emptyHash :: "group jshash" where
  "emptyHash = ([], [])"

definition aggregateInternal :: "jsruntime \<Rightarrow> IAggregationParams \<Rightarrow> error + jsrecord list" where
  "aggregateInternal rt p =
     (case foldE (processRecord rt p) (records p) emptyHash of
        Inl e \<Rightarrow> Inl e
      | Inr recordsHash \<Rightarrow>
          (case mapE (finishGroup p) (hashValues recordsHash) of
             Inl e \<Rightarrow> Inl e
           | Inr aggregatedRecords \<Rightarrow>
               (case sortBy p of
                  None \<Rightarrow> Inr aggregatedRecords
                | Some keys \<Rightarrow>
                    lodashSortBy rt (map (transformSortKeyForSort rt (buckets p)) keys)
                      aggregatedRecords)))"

text \<open>
  \<^verbatim>\<open>aggregate\<close> calls \<^verbatim>\<open>aggregateInternal\<close> twice without passing
  \<^verbatim>\<open>noAggregateMetadata\<close> on, the second time without match keys and buckets, takes the
  first element of the second result as the totals, and deletes the metadata itself.
  Deleting a property of \<^verbatim>\<open>undefined\<close> throws.
\<close>

definition stripMetadata :: "jsrecord \<Rightarrow> jsrecord" where
  "stripMetadata r = r\<lparr>metadata := None\<rparr>"

definition aggregate ::
  "jsruntime \<Rightarrow> IAggregationParams \<Rightarrow> error + jsrecord list \<times> jsrecord option" where
  "aggregate rt p =
     (case aggregateInternal rt (p\<lparr>noAggregateMetadata := False\<rparr>) of
        Inl e \<Rightarrow> Inl e
      | Inr aggregatedRecords \<Rightarrow>
          (case aggregateInternal rt
                  (p\<lparr>matchKeys := [], buckets := None, noAggregateMetadata := False\<rparr>) of
             Inl e \<Rightarrow> Inl e
           | Inr ts \<Rightarrow>
               (let totals = (case ts of [] \<Rightarrow> None | t # _ \<Rightarrow> Some t) in
                if noAggregateMetadata p then
                  (case totals of
                     None \<Rightarrow> Inl TypeError
                   | Some t \<Rightarrow> Inr (map stripMetadata aggregatedRecords, Some (stripMetadata t)))
                else Inr (aggregatedRecords, totals))))"


section \<open>Notions used in the statements\<close>

text \<open>\<^verbatim>\<open>Object.keys\<close> of a hash: the array indices in ascending order, then the other keys.\<close>

definition hashKeys :: "'v jshash \<Rightarrow> string list" where
  "hashKeys h = map (natToString \<circ> fst) (fst h) @ map fst (snd h)"

text \<open>
  The shape every hash built by \<open>hashPut\<close> has: the indices ascend and are the indices of
  their decimal forms, and the other keys are distinct and are not indices.
\<close>

definition wfHash :: "'v jshash \<Rightarrow> bool" where
  "wfHash h =
     (sorted_wrt (<) (map fst (fst h))
      \<and> (\<forall>i\<in>fst ` set (fst h). arrayIndex (natToString i) = Some i)
      \<and> distinct (map fst (snd h))
      \<and> (\<forall>k\<in>fst ` set (snd h). arrayIndex k = None))"

text \<open>The count kept in the metadata of a record, and the sum of the counts of a list.\<close>

definition recordCount :: "jsrecord \<Rightarrow> jsnum" where
  "recordCount r = (case metadata r of None \<Rightarrow> NaN | Some md \<Rightarrow> m_count md)"

definition totalCount :: "jsrecord list \<Rightarrow> jsnum" where
  "totalCount rs = foldr (\<lambda>r. jsPlus (recordCount r)) rs (Fin 0)"

definition groupTotal :: "group list \<Rightarrow> jsnum" where
  "groupTotal gs = foldr (\<lambda>g. jsPlus (m_count (snd g))) gs (Fin 0)"

section \<open>Merging aggregation metadata\<close>

text \<open>
  The loop over the records adds to the metadata of a group what each record brings: one
  occurrence and its own values for a record without metadata, the count and the source
  states of its metadata for a record taken for an aggregate. The notions of this section
  describe that loop as a merge of metadata, for the requests and records on which it
  cannot throw. They serve the statement and the proof of composability.
\<close>

subsection \<open>Keys in the order of their creation\<close>

text \<open>
  A key written for the first time is appended to the keys of its object. In
  \<^verbatim>\<open>recordsHash\<close> only the keys that are not array indices are kept in that order.
\<close>

definition insNew :: "string list \<Rightarrow> string \<Rightarrow> string list" where
  "insNew acc k = (if k \<in> set acc then acc else acc @ [k])"


text \<open>
  A run of updates of a \<^verbatim>\<open>sources\<close> object: each pair gives a key and what is done to
  the state found under that key, or to the state created for it.
\<close>

definition updatePairs ::
  "sourceState \<Rightarrow> (string \<times> (sourceState \<Rightarrow> sourceState)) list
     \<Rightarrow> sourceState jsobject \<Rightarrow> sourceState jsobject" where
  "updatePairs created kus srcs =
     foldl (\<lambda>s ku. setProp (fst ku) (snd ku (stateOr created s (fst ku))) s) srcs kus"

subsection \<open>What an aggregated record brings\<close>

text \<open>
  The four values a source state of the metadata of a record brings to a standard source
  field, and the two it brings to a weighted one.
\<close>

definition standardOf :: "sourceState \<Rightarrow> standardPart" where
  "standardOf s = (optNum (m_sum s), optNum (m_sumOfSquares s), m_min s, m_max s)"

definition weightedOf :: "sourceState \<Rightarrow> weightedPart" where
  "weightedOf s = (optNum (m_totalWeight s), optNum (m_weightedSum s))"




text \<open>
  Merging the sources \<open>c\<close> of an aggregated record into the sources \<open>s\<close> of a group,
  for the standard source fields \<open>ss\<close> and the composite keys \<open>ws\<close> of the request:
  the two \<^verbatim>\<open>forEach\<close> loops of the body, read on a record taken for an aggregate.
  Sources are \<open>shaped\<close> when their keys are \<open>ss\<close> then \<open>ws\<close> and their states have the
  shape above.
\<close>

definition standardMerge ::
  "sourceState jsobject \<Rightarrow> string list \<Rightarrow> (string \<times> (sourceState \<Rightarrow> sourceState)) list" where
  "standardMerge c ks =
     map (\<lambda>k. (k, \<lambda>st. addStandard st (standardOf (stateOr emptyStandard c k)))) ks"

definition weightedMerge ::
  "sourceState jsobject \<Rightarrow> string list \<Rightarrow> (string \<times> (sourceState \<Rightarrow> sourceState)) list" where
  "weightedMerge c ks =
     map (\<lambda>k. (k, \<lambda>st. addWeighted st (weightedOf (stateOr emptyWeighted c k)))) ks"

definition mergeSources ::
  "string list \<Rightarrow> string list \<Rightarrow> sourceState jsobject \<Rightarrow> sourceState jsobject
     \<Rightarrow> sourceState jsobject" where
  "mergeSources ss ws s c =
     updatePairs emptyWeighted (weightedMerge c ws) (updatePairs emptyStandard (standardMerge c ss) s)"


subsection \<open>What a record without metadata brings\<close>

definition weightedKey :: "IAggregationField \<Rightarrow> string" where
  "weightedKey f = getWeightedAverageMetadataKey (sourceField f) (weightField f)"

definition weightedKeys :: "IAggregationField jsobject \<Rightarrow> string list" where
  "weightedKeys fs = map weightedKey (weightedAvgFields fs)"



text \<open>
  Merging metadata \<open>c\<close> into the metadata \<open>m\<close> of a group; the metadata that stands for
  one record without metadata; the metadata a record contributes; and the metadata of a
  group just created.
\<close>

definition mergeMd ::
  "string list \<Rightarrow> string list \<Rightarrow> IAggregationData \<Rightarrow> IAggregationData \<Rightarrow> IAggregationData" where
  "mergeMd ss ws m c =
     m\<lparr>m_count := jsPlus (m_count m) (m_count c),
       m_sources := mergeSources ss ws (m_sources m) (m_sources c)\<rparr>"






subsection \<open>The loop on records it accepts\<close>







subsection \<open>The records returned\<close>






section \<open>Concrete inputs\<close>

definition field :: "AggregationTypes \<Rightarrow> string option \<Rightarrow> string option \<Rightarrow> IAggregationField" where
  "field m s w = \<lparr>aggMethod = m, sourceField = s, weightField = w\<rparr>"

definition rawRecord :: "jsval jsobject \<Rightarrow> jsrecord" where
  "rawRecord ps = \<lparr>props = ps, metadata = None\<rparr>"

definition priced :: "real \<Rightarrow> jsrecord" where
  "priced x = rawRecord [(''price'', Num (Fin x))]"

text \<open>
  A request for the weighted average of \<^verbatim>\<open>revenue\<close> by \<^verbatim>\<open>days\<close> over all records, and
  the record it returns for the two records with revenue 10 over 1 day and revenue 20
  over 3 days.
\<close>

definition weightedRequest :: "jsrecord list \<Rightarrow> IAggregationParams" where
  "weightedRequest rs =
     \<lparr>records = rs, matchKeys = [], buckets = None,
      aggFields = [(''avg'', field AggWeightedAverage (Some ''revenue'') (Some ''days''))],
      noAggregateMetadata = False, sortBy = None\<rparr>"

definition weightedPartial :: jsrecord where
  "weightedPartial =
     \<lparr>props = [(''avg'', Num (Fin (35 / 2)))],
      metadata = Some \<lparr>m_matchKeys = [], m_count = Fin 2,
        m_sources = [(''weightedAverage,revenue,days'',
           emptyWeighted\<lparr>m_weightedSum := Some (Fin 70), m_totalWeight := Some (Fin 4)\<rparr>)]\<rparr>\<rparr>"

text \<open>A record returned for the sum of \<^verbatim>\<open>revenue\<close> over the same two records.\<close>

definition sumPartial :: jsrecord where
  "sumPartial =
     \<lparr>props = [(''total'', Num (Fin 30))],
      metadata = Some \<lparr>m_matchKeys = [], m_count = Fin 2,
        m_sources = [(''revenue'',
           emptyStandard\<lparr>m_sum := Some (Fin 30), m_sumOfSquares := Some (Fin 500),
             m_min := Some (Fin 10), m_max := Some (Fin 20)\<rparr>)]\<rparr>\<rparr>"


definition deviationRequest :: "jsrecord list \<Rightarrow> IAggregationParams" where
  "deviationRequest rs =
     \<lparr>records = rs, matchKeys = [], buckets = None,
      aggFields = [(''sd'', field AggStandardDeviation (Some ''x'') None)],
      noAggregateMetadata = True, sortBy = None\<rparr>"


text \<open>Counting by price bucket, the breakpoints being negative, sorted by bucket.\<close>

definition negativeBuckets :: IAggregationParams where
  "negativeBuckets =
     \<lparr>records = [priced 5, priced (- 7)], matchKeys = [''price''],
      buckets = Some [(''price'', [Fin (- 10), Fin (- 5), Fin 0])],
      aggFields = [(''n'', field AggCount None None)],
      noAggregateMetadata = True, sortBy = Some [''price'']\<rparr>"


text \<open>
  Two records whose values under the match keys \<^verbatim>\<open>a\<close> and \<^verbatim>\<open>b\<close> differ and
  concatenate to the same string.
\<close>

definition abRequest :: IAggregationParams where
  "abRequest =
     \<lparr>records = [rawRecord [(''a'', Str ''a''), (''b'', Str ''bc'')],
                 rawRecord [(''a'', Str ''ab''), (''b'', Str ''c'')]],
      matchKeys = [''a'', ''b''], buckets = None,
      aggFields = [(''n'', field AggCount None None)],
      noAggregateMetadata = True, sortBy = None\<rparr>"

text \<open>
  Counting by region: three customers, the records returned for them without metadata,
  and the records returned when those are aggregated again.
\<close>

definition countByRegion :: "jsrecord list \<Rightarrow> bool \<Rightarrow> IAggregationParams" where
  "countByRegion rs strip =
     \<lparr>records = rs, matchKeys = [''region''], buckets = None,
      aggFields = [(''n'', field AggCount None None)],
      noAggregateMetadata = strip, sortBy = None\<rparr>"

definition threeCustomers :: "jsrecord list" where
  "threeCustomers =
     [rawRecord [(''region'', Str ''midwest'')], rawRecord [(''region'', Str ''midwest'')],
      rawRecord [(''region'', Str ''northeast'')]]"

definition regionCounts :: "jsrecord list" where
  "regionCounts =
     [rawRecord [(''region'', Str ''midwest''), (''n'', Num (Fin 2))],
      rawRecord [(''region'', Str ''northeast''), (''n'', Num (Fin 1))]]"

definition regionRecounts :: "jsrecord list" where
  "regionRecounts =
     [\<lparr>props = [(''region'', Str ''midwest''), (''n'', Num (Fin 1))],
       metadata = Some \<lparr>m_matchKeys = [''region''], m_count = Fin 1, m_sources = []\<rparr>\<rparr>,
      \<lparr>props = [(''region'', Str ''northeast''), (''n'', Num (Fin 1))],
       metadata = Some \<lparr>m_matchKeys = [''region''], m_count = Fin 1, m_sources = []\<rparr>\<rparr>]"















definition bucketRequest :: "jsrecord list \<Rightarrow> IAggregationParams" where
  "bucketRequest rs =
     \<lparr>records = rs, matchKeys = [''price''], buckets = Some [(''price'', [Fin 0, Fin 10])],
      aggFields = [(''n'', field AggCount None None)],
      noAggregateMetadata = False, sortBy = None\<rparr>"

definition counted :: "string \<Rightarrow> string \<Rightarrow> real \<Rightarrow> jsrecord" where
  "counted key label n =
     \<lparr>props = [(key, Str label), (''n'', Num (Fin n))],
      metadata = Some \<lparr>m_matchKeys = [key], m_count = Fin n, m_sources = []\<rparr>\<rparr>"

definition countTotals :: "real \<Rightarrow> jsrecord" where
  "countTotals n =
     \<lparr>props = [(''n'', Num (Fin n))],
      metadata = Some \<lparr>m_matchKeys = [], m_count = Fin n, m_sources = []\<rparr>\<rparr>"

definition sortedRequest :: "jsrecord list \<Rightarrow> IAggregationParams" where
  "sortedRequest rs =
     \<lparr>records = rs, matchKeys = [''region''], buckets = None,
      aggFields = [(''n'', field AggCount None None)],
      noAggregateMetadata = False, sortBy = Some [''n'']\<rparr>"

definition inRegion :: "string \<Rightarrow> jsrecord" where
  "inRegion region = rawRecord [(''region'', Str region)]"


section \<open>Bucket labels at the breakpoints\<close>

text \<open>
  Claim C3: a value equal to a breakpoint goes to the lower bucket; with the ascending
  breakpoints \<open>b\<^sub>0 < b\<^sub>1\<close>, a value \<open>v\<close> with \<open>b\<^sub>0 < v \<le> b\<^sub>1\<close> is labelled \<open>b\<^sub>0-b\<^sub>1\<close>, and with the
  breakpoints 0, 10, 20 the value 0 is labelled \<open><=0\<close> and the value 10 is labelled
  \<open>0-10\<close>. The code does otherwise. In \<^verbatim>\<open>aggregate.ts\<close> the comparison is strict: 0 is
  labelled \<open>0-10\<close> and 10 is labelled \<open>10-20\<close>. In both variants the breakpoints 2, 10 are
  put in the order 10, 2 before the loop runs, so that the value 10 is labelled \<open>2+\<close> by
  \<^verbatim>\<open>aggregate.ts\<close> and \<open><=10\<close> by the BigNumber variant, where the claim has \<open>2-10\<close>.
\<close>

theorem C3_breakpoint_value_label:
  "getFieldHashKey plainRuntime (priced 0) ''price'' (Some [Fin 0, Fin 10, Fin 20]) = Str ''0-10''
   \<and> getFieldHashKey plainRuntime (priced 10) ''price'' (Some [Fin 0, Fin 10, Fin 20]) = Str ''10-20''
   \<and> getFieldHashKey plainRuntime (priced 10) ''price'' (Some [Fin 2, Fin 10]) = Str ''2+''
   \<and> getFieldHashKeyB plainRuntime (priced 10) ''price'' (Some [Fin 2, Fin 10]) = Str ''<=10''"
  by code_simp

text \<open>
  Claim C6: breakpoints given in any order are sorted into ascending numeric order before
  the bucket is assigned. The code sorts them by their decimal strings: 10 comes before 2,
  whatever the order they were given in, and the value 5 is labelled \<open><10\<close>
  (\<open><=10\<close> in the BigNumber variant), where the loop run on the breakpoints in numeric
  order gives \<open>2-10\<close>.
\<close>

theorem C6_breakpoints_sorted_as_strings:
  "defaultSort plainRuntime [Fin 10, Fin 2] = [Fin 10, Fin 2]
   \<and> defaultSort plainRuntime [Fin 2, Fin 10] = [Fin 10, Fin 2]
   \<and> getFieldHashKey plainRuntime (priced 5) ''price'' (Some [Fin 10, Fin 2]) = Str ''<10''
   \<and> getFieldHashKeyB plainRuntime (priced 5) ''price'' (Some [Fin 10, Fin 2]) = Str ''<=10''
   \<and> bucketLoop plainRuntime (Num (Fin 5)) None [Fin 2, Fin 10] = ''2-10''
   \<and> bucketLoopB plainRuntime (Num (Fin 5)) None [Fin 2, Fin 10] = ''2-10''"
  by code_simp

text \<open>
  Claim C8: with \<^verbatim>\<open>sortBy\<close> naming a bucketed match key, the groups come out in the
  order of the lower bounds of their buckets, parsed back from the labels, negative
  breakpoints included. The code splits a label at every \<open>-\<close>: the label \<open>-10--5\<close> of the
  bucket from \<open>-10\<close> to \<open>-5\<close> parses to the numbers 0, 10, 0, 5, its lower bound is read as
  0, and the group of the bucket \<open>0+\<close>, met first, stays before it.
\<close>

theorem C8_negative_bucket_order:
  "parseBucketString plainRuntime ''-10--5'' = [Fin 0, Fin 10, Fin 0, Fin 5]
   \<and> parseBucketStringB plainRuntime ''-10--5'' = [Fin 0, Fin 10, Fin 0, Fin 5]
   \<and> aggregate plainRuntime negativeBuckets =
       Inr ([rawRecord [(''price'', Str ''0+''), (''n'', Num (Fin 1))],
             rawRecord [(''price'', Str ''-10--5''), (''n'', Num (Fin 1))]],
            Some (rawRecord [(''n'', Num (Fin 2))]))"
  by code_simp

section \<open>Records that carry metadata\<close>

text \<open>
  Claim C2: a record with metadata is merged as a partial aggregate exactly when the match
  keys of its metadata contain the requested ones and its \<^verbatim>\<open>sources\<close> hold every
  standard key and every weighted, composite key the request needs; otherwise it counts
  as one raw record and the call does not fail. The code looks a weighted field up under
  its source field, not under the composite key. The record returned for a weighted
  average is therefore not merged when it is aggregated again with the same request: it
  counts for one and its sums are lost. A record that holds the state of the source
  field alone is taken for a partial aggregate, and the call throws.
\<close>

theorem C2_weighted_key_check:
  "aggregateInternal plainRuntime
      (weightedRequest [rawRecord [(''revenue'', Num (Fin 10)), (''days'', Num (Fin 1))],
                        rawRecord [(''revenue'', Num (Fin 20)), (''days'', Num (Fin 3))]])
     = Inr [weightedPartial]
   \<and> (case metadata weightedPartial of
         None \<Rightarrow> False
       | Some md \<Rightarrow>
           isSubset [] (m_matchKeys md)
           \<and> map_of (m_sources md)
                (getWeightedAverageMetadataKey (Some ''revenue'') (Some ''days'')) \<noteq> None)
   \<and> isAggregatedRecord (weightedRequest [weightedPartial]) weightedPartial = False
   \<and> aggregateInternal plainRuntime (weightedRequest [weightedPartial])
     = Inr [\<lparr>props = [(''avg'', Num NaN)],
             metadata = Some \<lparr>m_matchKeys = [], m_count = Fin 1,
               m_sources = [(''weightedAverage,revenue,days'',
                 emptyWeighted\<lparr>m_weightedSum := Some NaN, m_totalWeight := Some NaN\<rparr>)]\<rparr>\<rparr>]
   \<and> isAggregatedRecord (weightedRequest [sumPartial]) sumPartial = True
   \<and> aggregateInternal plainRuntime (weightedRequest [sumPartial]) = Inl TypeError"
  by code_simp

section \<open>The standard deviation\<close>




section \<open>An empty list of records: two lemmas\<close>

lemma lodashSortBy_Nil: "lodashSortBy rt its [] = Inr []"
  by (simp add: lodashSortBy_def)

lemma aggregateInternal_Nil: "records p = [] \<Longrightarrow> aggregateInternal rt p = Inr []"
  by (simp add: aggregateInternal_def emptyHash_def hashValues_def lodashSortBy_Nil
      split: option.split)

section \<open>Requests without a weight field\<close>













section \<open>An empty list of records\<close>

text \<open>
  Claim C10: when the list of records is empty, \<^verbatim>\<open>aggregate\<close> returns no aggregated
  record and absent totals; if \<^verbatim>\<open>noAggregateMetadata\<close> is set as well, it throws
  instead, deleting the metadata of the absent totals.
\<close>

theorem C10_empty_records:
  "records p = [] \<Longrightarrow>
   aggregate rt p = (if noAggregateMetadata p then Inl TypeError else Inr ([], None))"
  by (simp add: aggregate_def aggregateInternal_Nil)

theorem C10_empty_records_witness:
  "aggregate plainRuntime (deviationRequest []) = Inl TypeError
   \<and> aggregate plainRuntime (weightedRequest []) = Inr ([], None)"
  using C10_empty_records [of "deviationRequest []" plainRuntime]
    C10_empty_records [of "weightedRequest []" plainRuntime]
  by (simp add: deviationRequest_def weightedRequest_def)

section \<open>The keys of the hash\<close>


lemma map_fst_setProp:
  "map fst (setProp k v ps) = (if k \<in> fst ` set ps then map fst ps else map fst ps @ [k])"
  by (induction k v ps rule: setProp.induct) auto

lemma keys_setProp: "fst ` set (setProp k v ps) = insert k (fst ` set ps)"
  by (induction k v ps rule: setProp.induct) (simp_all add: insert_commute)


lemma keys_indexedPut: "fst ` set (indexedPut i v ps) = insert i (fst ` set ps)"
  by (induction i v ps rule: indexedPut.induct) (simp_all add: insert_commute)

lemma sorted_indexedPut:
  "sorted_wrt (<) (map fst ps) \<Longrightarrow> sorted_wrt (<) (map fst (indexedPut i v ps))"
proof (induction i v ps rule: indexedPut.induct)
  case (1 i v)
  show ?case by simp
next
  case (2 i v j w rest)
  from "2.prems" have rest: "sorted_wrt (<) (map fst rest)" and lt: "\<forall>x\<in>fst ` set rest. j < x"
    by simp_all
  show ?case
  proof (cases "i = j \<or> i < j")
    case True
    with "2.prems" show ?thesis by auto
  next
    case False
    then have ij: "i \<noteq> j" "\<not> i < j" "j < i" by auto
    have "\<forall>x\<in>fst ` set (indexedPut i v rest). j < x"
      unfolding keys_indexedPut using lt ij by simp
    moreover have "sorted_wrt (<) (map fst (indexedPut i v rest))"
      using "2.IH" ij rest by simp
    ultimately show ?thesis using ij by simp
  qed
qed

lemma arrayIndex_Some: "arrayIndex k = Some i \<Longrightarrow> natToString i = k"
  by (simp add: arrayIndex_def split: if_splits)




lemma wfHash_emptyHash: "wfHash emptyHash"
  by (simp add: wfHash_def emptyHash_def)

lemma wfHash_hashPut:
  assumes "wfHash h"
  shows "wfHash (hashPut k v h)"
proof (cases "arrayIndex k")
  case None
  have "distinct (map fst (setProp k v (snd h)))"
    using assms by (simp add: wfHash_def map_fst_setProp)
  moreover have "\<forall>k'\<in>fst ` set (setProp k v (snd h)). arrayIndex k' = None"
    unfolding keys_setProp using assms None by (simp add: wfHash_def)
  ultimately show ?thesis
    using assms None by (simp add: wfHash_def hashPut_def)
next
  case (Some i)
  have "arrayIndex (natToString i) = Some i"
    using Some arrayIndex_Some [OF Some] by simp
  then have "\<forall>j\<in>fst ` set (indexedPut i v (fst h)). arrayIndex (natToString j) = Some j"
    unfolding keys_indexedPut using assms by (simp add: wfHash_def)
  moreover have "sorted_wrt (<) (map fst (indexedPut i v (fst h)))"
    using assms by (simp add: wfHash_def sorted_indexedPut)
  ultimately show ?thesis
    using assms Some by (simp add: wfHash_def hashPut_def)
qed

lemma set_hashKeys: "set (hashKeys h) = natToString ` (fst ` set (fst h)) \<union> fst ` set (snd h)"
  by (simp add: hashKeys_def image_image)

lemma set_hashKeys_hashPut:
  "set (hashKeys (hashPut k v h)) = insert k (set (hashKeys h))"
proof (cases "arrayIndex k")
  case None
  then show ?thesis
    unfolding set_hashKeys by (simp add: hashPut_def keys_setProp)
next
  case (Some i)
  then show ?thesis
    unfolding set_hashKeys using arrayIndex_Some [OF Some]
    by (simp add: hashPut_def keys_indexedPut)
qed

lemma distinct_hashKeys:
  assumes wf: "wfHash h"
  shows "distinct (hashKeys h)"
proof -
  have inj: "inj_on natToString (fst ` set (fst h))"
  proof (rule inj_onI)
    fix i j
    assume "i \<in> fst ` set (fst h)" "j \<in> fst ` set (fst h)" "natToString i = natToString j"
    with wf have "arrayIndex (natToString i) = Some i" "arrayIndex (natToString i) = Some j"
      unfolding wfHash_def by auto
    then show "i = j" by simp
  qed
  have d1: "distinct (map fst (fst h))"
    using wf unfolding wfHash_def by (simp add: strict_sorted_iff)
  have "distinct (map natToString (map fst (fst h)))"
    unfolding distinct_map [of natToString] using d1 inj by simp
  moreover have "natToString ` (fst ` set (fst h)) \<inter> fst ` set (snd h) = {}"
  proof (rule ccontr)
    assume "natToString ` (fst ` set (fst h)) \<inter> fst ` set (snd h) \<noteq> {}"
    then obtain i where i: "i \<in> fst ` set (fst h)" and n: "natToString i \<in> fst ` set (snd h)"
      by blast
    from wf i have "arrayIndex (natToString i) = Some i" unfolding wfHash_def by blast
    moreover from wf n have "arrayIndex (natToString i) = None" unfolding wfHash_def by blast
    ultimately show False by simp
  qed
  moreover have "distinct (map fst (snd h))"
    using wf unfolding wfHash_def by blast
  ultimately show ?thesis
    by (simp add: hashKeys_def image_image)
qed

lemma length_hashValues: "length (hashValues h) = length (hashKeys h)"
  by (simp add: hashValues_def hashKeys_def)

lemma processRecord_Inr:
  "processRecord rt p h r = Inr h' \<Longrightarrow> \<exists>g. h' = hashPut (hashKeyOf rt p r) g h"
  by (auto simp: processRecord_def Let_def split: sum.splits)

lemma foldE_processRecord_keys:
  "foldE (processRecord rt p) rs h = Inr h' \<Longrightarrow> wfHash h \<Longrightarrow>
   wfHash h' \<and> set (hashKeys h') = set (hashKeys h) \<union> hashKeyOf rt p ` set rs"
proof (induction rs arbitrary: h)
  case Nil
  then show ?case by simp
next
  case (Cons r rs)
  from Cons.prems(1) obtain h1 where h1: "processRecord rt p h r = Inr h1"
    and rest: "foldE (processRecord rt p) rs h1 = Inr h'"
    by (auto split: sum.splits)
  from processRecord_Inr [OF h1] obtain g where g: "h1 = hashPut (hashKeyOf rt p r) g h" ..
  have "wfHash h1"
    using g Cons.prems(2) by (simp add: wfHash_hashPut)
  from Cons.IH [OF rest this] g show ?case
    by (simp add: set_hashKeys_hashPut)
qed

lemma mapE_length: "mapE f xs = Inr ys \<Longrightarrow> length ys = length xs"
  by (induction xs arbitrary: ys) (auto split: sum.splits)

lemma length_criteriaInsert: "length (criteriaInsert rt x ys) = Suc (length ys)"
  by (induction ys) auto

lemma length_criteriaSort: "length (foldr (criteriaInsert rt) xs []) = length xs"
  by (induction xs) (auto simp: length_criteriaInsert)

lemma lodashSortBy_length:
  assumes "lodashSortBy rt its rs = Inr out"
  shows "length out = length rs"
proof -
  from assms obtain cs where cs: "mapE (\<lambda>r. mapE (\<lambda>it. it r) its) rs = Inr cs"
    and out: "out = map snd (foldr (criteriaInsert rt) (zip cs rs) [])"
    by (auto simp: lodashSortBy_def split: sum.splits)
  from mapE_length [OF cs] out show ?thesis
    by (simp add: length_criteriaSort)
qed

lemma aggregateInternal_Inr:
  assumes "aggregateInternal rt p = Inr out"
  obtains h vs where "foldE (processRecord rt p) (records p) emptyHash = Inr h"
    and "mapE (finishGroup p) (hashValues h) = Inr vs"
    and "case sortBy p of None \<Rightarrow> out = vs
         | Some keys \<Rightarrow> lodashSortBy rt (map (transformSortKeyForSort rt (buckets p)) keys) vs = Inr out"
  using assms by (auto simp: aggregateInternal_def split: sum.splits option.splits)

text \<open>
  Claim C9: the identity of a group is the concatenation, without separator, of the labels
  of its match keys. The groups returned are as many as the distinct concatenations among
  the records, so that two records fall in the same group exactly when their
  concatenations are equal; the records with the values \<open>a\<close>, \<open>bc\<close> and \<open>ab\<close>, \<open>c\<close> are
  merged into one group, which keeps the values of the first.
\<close>

theorem C9_groups_are_hash_keys:
  "(aggregateInternal rt p = Inr out \<longrightarrow>
      (let key = (\<lambda>r. concat (map (\<lambda>matchKey.
            joinString rt (getFieldHashKey rt r matchKey (bucketEndpointsFor (buckets p) matchKey)))
          (matchKeys p)))
       in length out = card (key ` set (records p))
          \<and> (\<forall>r1 r2. records p = [r1, r2] \<longrightarrow> (length out = 1) = (key r1 = key r2))))
   \<and> aggregateInternal plainRuntime abRequest =
       Inr [rawRecord [(''a'', Str ''a''), (''b'', Str ''bc''), (''n'', Num (Fin 2))]]"
proof (intro conjI impI)
  assume a: "aggregateInternal rt p = Inr out"
  from a obtain h vs where h: "foldE (processRecord rt p) (records p) emptyHash = Inr h"
    and vs: "mapE (finishGroup p) (hashValues h) = Inr vs"
    and srt: "case sortBy p of None \<Rightarrow> out = vs
         | Some keys \<Rightarrow> lodashSortBy rt (map (transformSortKeyForSort rt (buckets p)) keys) vs = Inr out"
    by (rule aggregateInternal_Inr)
  have out: "length out = length vs"
    using srt by (auto split: option.splits dest: lodashSortBy_length)
  from foldE_processRecord_keys [OF h wfHash_emptyHash]
  have wf: "wfHash h" and keys: "set (hashKeys h) = hashKeyOf rt p ` set (records p)"
    by (simp_all add: hashKeys_def emptyHash_def)
  have "length out = length (hashKeys h)"
    using out mapE_length [OF vs] by (simp add: length_hashValues)
  also have "\<dots> = card (set (hashKeys h))"
    using distinct_hashKeys [OF wf] by (simp add: distinct_card)
  finally have card: "length out = card (hashKeyOf rt p ` set (records p))"
    unfolding keys .
  have two: "(length out = 1) = (hashKeyOf rt p r1 = hashKeyOf rt p r2)"
    if "records p = [r1, r2]" for r1 r2
    using card that by (auto simp: card_insert_if)
  from card two
  show "let key = (\<lambda>r. concat (map (\<lambda>matchKey.
            joinString rt (getFieldHashKey rt r matchKey (bucketEndpointsFor (buckets p) matchKey)))
          (matchKeys p)))
       in length out = card (key ` set (records p))
          \<and> (\<forall>r1 r2. records p = [r1, r2] \<longrightarrow> (length out = 1) = (key r1 = key r2))"
    unfolding Let_def hashKeyOf_def by blast
next
  show "aggregateInternal plainRuntime abRequest =
       Inr [rawRecord [(''a'', Str ''a''), (''b'', Str ''bc''), (''n'', Num (Fin 2))]]"
    by code_simp
qed

theorem C9_groups_are_hash_keys_witness:
  "card ((\<lambda>r. concat (map (\<lambda>matchKey.
       joinString plainRuntime
         (getFieldHashKey plainRuntime r matchKey (bucketEndpointsFor (buckets abRequest) matchKey)))
       (matchKeys abRequest))) ` set (records abRequest)) = 1"
proof -
  have "aggregateInternal plainRuntime abRequest =
       Inr [rawRecord [(''a'', Str ''a''), (''b'', Str ''bc''), (''n'', Num (Fin 2))]]"
    by code_simp
  with C9_groups_are_hash_keys [of plainRuntime abRequest
      "[rawRecord [(''a'', Str ''a''), (''b'', Str ''bc''), (''n'', Num (Fin 2))]]"]
  show ?thesis by (simp add: Let_def)
qed

section \<open>Records without metadata count for one\<close>

lemma jsPlus_commute: "jsPlus a b = jsPlus b a"
  by (cases a; cases b) simp_all

lemma jsPlus_assoc: "jsPlus (jsPlus a b) c = jsPlus a (jsPlus b c)"
  by (cases a; cases b; cases c) simp_all

lemma jsPlus_left_commute: "jsPlus a (jsPlus b c) = jsPlus b (jsPlus a c)"
  by (cases a; cases b; cases c) simp_all

lemma jsPlus_zero [simp]: "jsPlus (Fin 0) a = a" "jsPlus a (Fin 0) = a"
  by (cases a; simp)+

lemmas jsPlus_ac = jsPlus_assoc jsPlus_commute jsPlus_left_commute

lemma groupTotal_simps [simp]:
  "groupTotal [] = Fin 0"
  "groupTotal (g # gs) = jsPlus (m_count (snd g)) (groupTotal gs)"
  by (simp_all add: groupTotal_def)

lemma groupTotal_append: "groupTotal (xs @ ys) = jsPlus (groupTotal xs) (groupTotal ys)"
  by (induction xs) (simp_all add: jsPlus_assoc)

lemma groupTotal_setProp_new:
  "map_of ps k = None \<Longrightarrow>
   groupTotal (map snd (setProp k g ps)) = jsPlus (groupTotal (map snd ps)) (m_count (snd g))"
  by (induction k g ps rule: setProp.induct) (auto simp: jsPlus_ac)

lemma groupTotal_setProp_old:
  "map_of ps k = Some g0 \<Longrightarrow> m_count (snd g) = jsPlus (m_count (snd g0)) d \<Longrightarrow>
   groupTotal (map snd (setProp k g ps)) = jsPlus (groupTotal (map snd ps)) d"
  by (induction k g ps rule: setProp.induct) (auto simp: jsPlus_ac)

lemma groupTotal_indexedPut_new:
  "map_of ps i = None \<Longrightarrow>
   groupTotal (map snd (indexedPut i g ps)) = jsPlus (groupTotal (map snd ps)) (m_count (snd g))"
  by (induction i g ps rule: indexedPut.induct) (auto simp: jsPlus_ac)

lemma map_of_sorted_less:
  "sorted_wrt (<) (map fst ps) \<Longrightarrow> \<forall>j\<in>fst ` set ps. (i::nat) < j \<Longrightarrow> map_of ps i = None"
  by (induction ps) auto

lemma groupTotal_indexedPut_old:
  "sorted_wrt (<) (map fst ps) \<Longrightarrow> map_of ps i = Some g0 \<Longrightarrow>
   m_count (snd g) = jsPlus (m_count (snd g0)) d \<Longrightarrow>
   groupTotal (map snd (indexedPut i g ps)) = jsPlus (groupTotal (map snd ps)) d"
proof (induction i g ps rule: indexedPut.induct)
  case (1 i v)
  then show ?case by simp
next
  case (2 i v j w rest)
  show ?case
  proof (cases "i = j")
    case True
    with "2.prems" show ?thesis by (simp add: jsPlus_ac)
  next
    case False
    show ?thesis
    proof (cases "i < j")
      case True
      with "2.prems"(1) have "\<forall>x\<in>fst ` set ((j, w) # rest). i < x" by auto
      with "2.prems"(1) have "map_of ((j, w) # rest) i = None"
        by (rule map_of_sorted_less)
      with "2.prems"(2) show ?thesis by simp
    next
      case notless: False
      with False "2.prems" "2.IH" show ?thesis by (simp add: jsPlus_ac)
    qed
  qed
qed

lemma groupTotal_hashPut_new:
  assumes "hashLookup h k = None"
  shows "groupTotal (hashValues (hashPut k g h)) = jsPlus (groupTotal (hashValues h)) (m_count (snd g))"
proof (cases "arrayIndex k")
  case None
  with assms show ?thesis
    by (simp add: hashLookup_def hashPut_def hashValues_def groupTotal_append
        groupTotal_setProp_new jsPlus_ac)
next
  case (Some i)
  with assms show ?thesis
    by (simp add: hashLookup_def hashPut_def hashValues_def groupTotal_append
        groupTotal_indexedPut_new jsPlus_ac)
qed

lemma groupTotal_hashPut_old:
  assumes "wfHash h" and "hashLookup h k = Some g0"
    and "m_count (snd g) = jsPlus (m_count (snd g0)) d"
  shows "groupTotal (hashValues (hashPut k g h)) = jsPlus (groupTotal (hashValues h)) d"
proof (cases "arrayIndex k")
  case None
  with assms show ?thesis
    by (simp add: hashLookup_def hashPut_def hashValues_def groupTotal_append
        groupTotal_setProp_old [of _ _ g0] jsPlus_ac)
next
  case (Some i)
  from assms(1) have "sorted_wrt (<) (map fst (fst h))" by (simp add: wfHash_def)
  with assms Some show ?thesis
    by (simp add: hashLookup_def hashPut_def hashValues_def groupTotal_append
        groupTotal_indexedPut_old [of _ _ g0] jsPlus_ac)
qed

lemma isAggregatedRecord_raw: "metadata r = None \<Longrightarrow> isAggregatedRecord q r = False"
  by (simp add: isAggregatedRecord_def)

lemma accumulate_raw_count:
  assumes "metadata r = None" and "accumulate rt q g r = Inr g'"
  shows "m_count (snd g') = jsPlus (m_count (snd g)) (Fin 1)"
  using assms(2) isAggregatedRecord_raw [OF assms(1), of q]
  by (auto simp: accumulate_def Let_def split: sum.splits)

lemma processRecord_raw_total:
  assumes "metadata r = None" and "wfHash h" and "processRecord rt q h r = Inr h'"
  shows "groupTotal (hashValues h') = jsPlus (groupTotal (hashValues h)) (Fin 1)"
proof (cases "hashLookup h (hashKeyOf rt q r)")
  case None
  with assms(3) obtain g' where acc: "accumulate rt q (newGroup rt q r) r = Inr g'"
    and h': "h' = hashPut (hashKeyOf rt q r) g' h"
    by (auto simp: processRecord_def Let_def split: sum.splits)
  have "m_count (snd g') = Fin 1"
    using accumulate_raw_count [OF assms(1) acc] by (simp add: newGroup_def)
  with groupTotal_hashPut_new [OF None, of g'] h' show ?thesis by simp
next
  case (Some g0)
  with assms(3) obtain g' where acc: "accumulate rt q g0 r = Inr g'"
    and h': "h' = hashPut (hashKeyOf rt q r) g' h"
    by (auto simp: processRecord_def Let_def split: sum.splits)
  from groupTotal_hashPut_old [OF assms(2) Some accumulate_raw_count [OF assms(1) acc]] h'
  show ?thesis by simp
qed

lemma jsPlus_Fin_Suc: "jsPlus (Fin (real n)) (Fin 1) = Fin (real (Suc n))"
  by simp

lemma foldE_processRecord_raw_total:
  "\<forall>r\<in>set rs. metadata r = None \<Longrightarrow> wfHash h \<Longrightarrow>
   foldE (processRecord rt q) rs h = Inr h' \<Longrightarrow>
   groupTotal (hashValues h') = jsPlus (groupTotal (hashValues h)) (Fin (real (length rs)))"
proof (induction rs arbitrary: h)
  case Nil
  then show ?case by simp
next
  case (Cons r rs)
  from Cons.prems(3) obtain h1 where h1: "processRecord rt q h r = Inr h1"
    and rest: "foldE (processRecord rt q) rs h1 = Inr h'"
    by (auto split: sum.splits)
  from Cons.prems(1) have raw: "metadata r = None" and raws: "\<forall>r\<in>set rs. metadata r = None"
    by simp_all
  have wf1: "wfHash h1"
    using processRecord_Inr [OF h1] Cons.prems(2) by (auto simp: wfHash_hashPut)
  have "groupTotal (hashValues h') = jsPlus (groupTotal (hashValues h1)) (Fin (real (length rs)))"
    using raws wf1 rest by (rule Cons.IH)
  also have "\<dots> = jsPlus (jsPlus (groupTotal (hashValues h)) (Fin 1)) (Fin (real (length rs)))"
    using processRecord_raw_total [OF raw Cons.prems(2) h1] by simp
  also have "\<dots> = jsPlus (groupTotal (hashValues h)) (Fin (real (length (r # rs))))"
    by (simp add: jsPlus_assoc)
  finally show ?case .
qed

lemma totalCount_simps [simp]:
  "totalCount [] = Fin 0"
  "totalCount (r # rs) = jsPlus (recordCount r) (totalCount rs)"
  by (simp_all add: totalCount_def)

lemma finishGroup_count:
  "\<not> noAggregateMetadata q \<Longrightarrow> finishGroup q g = Inr r \<Longrightarrow> recordCount r = m_count (snd g)"
  by (auto simp: finishGroup_def recordCount_def split: sum.splits)

lemma mapE_finishGroup_total:
  "\<not> noAggregateMetadata q \<Longrightarrow> mapE (finishGroup q) gs = Inr rs \<Longrightarrow>
   totalCount rs = groupTotal gs"
proof (induction gs arbitrary: rs)
  case Nil
  then show ?case by simp
next
  case (Cons g gs)
  from Cons.prems(2) obtain r rs' where r: "finishGroup q g = Inr r"
    and rs': "mapE (finishGroup q) gs = Inr rs'" and rs: "rs = r # rs'"
    by (auto split: sum.splits)
  from Cons.IH [OF Cons.prems(1) rs'] finishGroup_count [OF Cons.prems(1) r] rs
  show ?case by simp
qed

lemma totalCount_criteriaInsert:
  "totalCount (map snd (criteriaInsert rt x ys)) = jsPlus (recordCount (snd x)) (totalCount (map snd ys))"
  by (induction ys) (auto simp: jsPlus_ac)

lemma totalCount_criteriaSort:
  "totalCount (map snd (foldr (criteriaInsert rt) xs [])) = totalCount (map snd xs)"
  by (induction xs) (simp_all add: totalCount_criteriaInsert)

lemma lodashSortBy_total:
  assumes "lodashSortBy rt its rs = Inr out"
  shows "totalCount out = totalCount rs"
proof -
  from assms obtain cs where cs: "mapE (\<lambda>r. mapE (\<lambda>it. it r) its) rs = Inr cs"
    and out: "out = map snd (foldr (criteriaInsert rt) (zip cs rs) [])"
    by (auto simp: lodashSortBy_def split: sum.splits)
  have "map snd (zip cs rs) = rs"
    using mapE_length [OF cs] by (simp add: map_snd_zip)
  with out show ?thesis by (simp add: totalCount_criteriaSort)
qed

lemma aggregateInternal_raw_total:
  assumes "\<forall>r\<in>set (records q). metadata r = None" and "\<not> noAggregateMetadata q"
    and "aggregateInternal rt q = Inr out"
  shows "totalCount out = Fin (real (length (records q)))"
proof -
  from assms(3) obtain h vs where h: "foldE (processRecord rt q) (records q) emptyHash = Inr h"
    and vs: "mapE (finishGroup q) (hashValues h) = Inr vs"
    and srt: "case sortBy q of None \<Rightarrow> out = vs
         | Some keys \<Rightarrow> lodashSortBy rt (map (transformSortKeyForSort rt (buckets q)) keys) vs = Inr out"
    by (rule aggregateInternal_Inr)
  have "totalCount out = totalCount vs"
    using srt by (auto split: option.splits dest: lodashSortBy_total)
  also have "\<dots> = groupTotal (hashValues h)"
    using assms(2) vs by (rule mapE_finishGroup_total)
  also have "\<dots> = jsPlus (groupTotal (hashValues emptyHash)) (Fin (real (length (records q))))"
    using assms(1) wfHash_emptyHash h by (rule foldE_processRecord_raw_total)
  finally show ?thesis by (simp add: hashValues_def emptyHash_def)
qed

lemma aggregate_stripped:
  assumes "noAggregateMetadata p" and "aggregate rt p = Inr (recs, tot)"
  shows "(\<forall>r\<in>set recs. metadata r = None) \<and> (\<forall>t. tot = Some t \<longrightarrow> metadata t = None)"
  using assms
  by (auto simp: aggregate_def Let_def stripMetadata_def split: sum.splits option.splits list.splits)

text \<open>
  Claim C5: with \<^verbatim>\<open>noAggregateMetadata\<close> set, no record returned, grouped or totals,
  carries metadata; aggregated again, under any request, each of them raises the count of
  its group by exactly one, and the counts of the groups returned add up to the number of
  records given.
\<close>

theorem C5_stripped_records_count_once:
  assumes "noAggregateMetadata p" and "aggregate rt p = Inr (recs, tot)"
  shows "(\<forall>r\<in>set recs. metadata r = None)
     \<and> (\<forall>t. tot = Some t \<longrightarrow> metadata t = None)
     \<and> (\<forall>q g g'. \<forall>r\<in>set recs. accumulate rt q g r = Inr g'
            \<longrightarrow> m_count (snd g') = jsPlus (m_count (snd g)) (Fin 1))
     \<and> (\<forall>q out. records q = recs \<and> \<not> noAggregateMetadata q \<and> aggregateInternal rt q = Inr out
            \<longrightarrow> totalCount out = Fin (real (length recs)))"
proof -
  from aggregate_stripped [OF assms]
  have raw: "\<forall>r\<in>set recs. metadata r = None" and tot: "\<forall>t. tot = Some t \<longrightarrow> metadata t = None"
    by simp_all
  have step: "m_count (snd g') = jsPlus (m_count (snd g)) (Fin 1)"
    if "r \<in> set recs" "accumulate rt q g r = Inr g'" for q g g' r
    using raw that accumulate_raw_count by blast
  have total: "totalCount out = Fin (real (length recs))"
    if "records q = recs \<and> \<not> noAggregateMetadata q \<and> aggregateInternal rt q = Inr out" for q out
    using aggregateInternal_raw_total [of q rt out] raw that by simp
  from raw tot step total show ?thesis by blast
qed


theorem C5_stripped_records_count_once_witness:
  "aggregate plainRuntime (countByRegion threeCustomers True)
     = Inr (regionCounts, Some (rawRecord [(''n'', Num (Fin 3))]))
   \<and> aggregateInternal plainRuntime (countByRegion regionCounts False) = Inr regionRecounts
   \<and> totalCount regionRecounts = Fin 2"
proof -
  have 1: "noAggregateMetadata (countByRegion threeCustomers True)"
    by (simp add: countByRegion_def)
  have 2: "aggregate plainRuntime (countByRegion threeCustomers True)
     = Inr (regionCounts, Some (rawRecord [(''n'', Num (Fin 3))]))"
    by code_simp
  have 3: "aggregateInternal plainRuntime (countByRegion regionCounts False) = Inr regionRecounts"
    by code_simp
  have 4: "records (countByRegion regionCounts False) = regionCounts
     \<and> \<not> noAggregateMetadata (countByRegion regionCounts False)"
    by (simp add: countByRegion_def)
  have "totalCount regionRecounts = Fin (real (length regionCounts))"
    using C5_stripped_records_count_once [OF 1 2] 3 4 by blast
  with 2 3 show ?thesis by (simp add: regionCounts_def)
qed

section \<open>Composing aggregations\<close>


text \<open>
  Two more requests for which the records returned cannot stand for the records they come
  from, although they carry their metadata. With buckets, the match key of a record
  returned holds the label of its bucket, which is bucketed again as a value: the record
  returned for the price 5 under the label \<open>0-10\<close> goes to the last bucket. With
  \<^verbatim>\<open>sortBy\<close>, the records returned are created in the hash in their sorted order, which
  decides between groups whose sort keys are equal.
\<close>

lemma bucket_label_bucketed_again:
  "aggregate plainRuntime (bucketRequest [priced 5])
     = Inr ([counted ''price'' ''0-10'' 1], Some (countTotals 1))
   \<and> aggregate plainRuntime (bucketRequest ([counted ''price'' ''0-10'' 1] @ [priced 7]))
     = Inr ([counted ''price'' ''10+'' 1, counted ''price'' ''0-10'' 1], Some (countTotals 2))
   \<and> aggregate plainRuntime (bucketRequest ([priced 5] @ [priced 7]))
     = Inr ([counted ''price'' ''0-10'' 2], Some (countTotals 2))"
  by code_simp

lemma sorted_output_reorders_ties:
  "aggregate plainRuntime (sortedRequest [inRegion ''a'', inRegion ''a'', inRegion ''b''])
     = Inr ([counted ''region'' ''b'' 1, counted ''region'' ''a'' 2], Some (countTotals 3))
   \<and> aggregate plainRuntime
       (sortedRequest ([counted ''region'' ''b'' 1, counted ''region'' ''a'' 2] @ [inRegion ''b'']))
     = Inr ([counted ''region'' ''b'' 2, counted ''region'' ''a'' 2], Some (countTotals 4))
   \<and> aggregate plainRuntime
       (sortedRequest ([inRegion ''a'', inRegion ''a'', inRegion ''b''] @ [inRegion ''b'']))
     = Inr ([counted ''region'' ''a'' 2, counted ''region'' ''b'' 2], Some (countTotals 4))"
  by code_simp

text \<open>
  The rest of this section proves that aggregation composes for the requests that are
  \<open>composableRequest\<close>. The numbers of the model are real numbers with exact arithmetic,
  so that sums do not depend on the order of their terms.
\<close>

subsection \<open>Objects as lists of properties\<close>










subsection \<open>Adding to a source state\<close>



lemma jsLess_PInf_left [simp]: "\<not> jsLess PInf x"
  by (cases x) simp_all

lemma jsLess_NInf_right [simp]: "\<not> jsLess x NInf"
  by (cases x) simp_all

lemma jsLess_irrefl [simp]: "\<not> jsLess x x"
  by (cases x) simp_all

lemma jsLess_trans: "jsLess x y \<Longrightarrow> jsLess y z \<Longrightarrow> jsLess x z"
  by (cases x; cases y; cases z) simp_all

lemma jsLess_asym: "jsLess x y \<Longrightarrow> \<not> jsLess y x"
  by (cases x; cases y) simp_all

lemma jsLess_total: "x \<noteq> NaN \<Longrightarrow> y \<noteq> NaN \<Longrightarrow> jsLess x y \<or> x = y \<or> jsLess y x"
  by (cases x; cases y) auto

lemma jsLess_NaN [simp]: "\<not> jsLess NaN x" "\<not> jsLess x NaN"
  by (cases x; simp)+








lemma getMin_None [simp]: "getMin a None = a" "getMin None b = None"
  by (simp_all add: getMin_def lessOpt_def split: option.splits)

lemma getMax_None [simp]: "getMax a None = a" "getMax None b = (case b of None \<Rightarrow> None | Some x \<Rightarrow> None)"
  by (simp_all add: getMax_def lessOpt_def split: option.splits)











subsection \<open>states\<close>

lemma optNum_Some [simp]: "optNum (Some x) = x"
  by (simp add: optNum_def)













subsection \<open>Merging sources\<close>


lemma keys_standardMerge [simp]: "map fst (standardMerge c ks) = ks"
  by (induction ks) (simp_all add: standardMerge_def)

lemma keys_weightedMerge [simp]: "map fst (weightedMerge c ks) = ks"
  by (induction ks) (simp_all add: weightedMerge_def)



lemma foldl_insNew_new: "distinct ks \<Longrightarrow> set ks \<inter> set acc = {} \<Longrightarrow> foldl insNew acc ks = acc @ ks"
proof (induction ks rule: rev_induct)
  case Nil
  show ?case by simp
next
  case (snoc k ks)
  then show ?case by (simp add: insNew_def)
qed












subsection \<open>The two loops over the fields\<close>





lemma updatePairs_snoc:
  "updatePairs d (kus @ [ku]) s =
     setProp (fst ku) (snd ku (stateOr d (updatePairs d kus s) (fst ku))) (updatePairs d kus s)"
  by (simp add: updatePairs_def)





subsection \<open>What one record adds to its group\<close>

lemma distinct_uniqBy_aux:
  "distinct (map f acc) \<Longrightarrow>
   distinct (map f (foldl (\<lambda>acc x. if f x \<in> f ` set acc then acc else acc @ [x]) acc xs))"
  by (induction xs arbitrary: acc) auto

lemma distinct_uniqBy: "distinct (map f (uniqBy f xs))"
  unfolding uniqBy_def by (rule distinct_uniqBy_aux) simp

lemma distinct_standardSourceFields: "distinct (standardSourceFields fs)"
  using distinct_uniqBy [of id] by (simp add: standardSourceFields_def)

lemma distinct_weightedKeys: "distinct (weightedKeys fs)"
  using distinct_uniqBy [of "\<lambda>f. getWeightedAverageMetadataKey (sourceField f) (weightField f)"]
  by (simp add: weightedKeys_def weightedAvgFields_def weightedKey_def [abs_def])


lemma map_of_keyed_by_None:
  "k \<notin> key ` set xs \<Longrightarrow> map_of (map (\<lambda>x. (key x, val x)) xs) k = None"
  by (induction xs) auto







subsection \<open>Merging metadata\<close>


lemma m_matchKeys_mergeMd [simp]: "m_matchKeys (mergeMd ss ws a c) = m_matchKeys a"
  by (simp add: mergeMd_def)















subsection \<open>Hashes with the same entries\<close>



lemma wfHash_index_pair: "wfHash h \<Longrightarrow> (i, v) \<in> set (fst h) \<Longrightarrow> arrayIndex (natToString i) = Some i"
  by (force simp: wfHash_def)













subsection \<open>The group of a hash key\<close>





subsection \<open>Where a put changes the values\<close>







subsection \<open>The metadata of all the groups\<close>



subsection \<open>The record returned for a group\<close>




subsection \<open>The properties of a group\<close>





subsection \<open>The groups of records without metadata\<close>

lemma m_matchKeys_foldl_mergeMd [simp]: "m_matchKeys (foldl (mergeMd ss ws) m cs) = m_matchKeys m"
  by (induction cs arbitrary: m) simp_all





subsection \<open>The entries of a hash\<close>




subsection \<open>The records returned for the groups of a hash\<close>



subsection \<open>The order of the keys that are not indices\<close>








subsection \<open>Groups merged or replayed\<close>







subsection \<open>The hash of records without metadata\<close>





subsection \<open>The totals\<close>






subsection \<open>From the hash to the result\<close>










subsection \<open>Every group of the union can be finished\<close>







subsection \<open>Composability and augmentability\<close>




end
